theory Spec2Isabelle
  imports Main
begin

section \<open>The query executor of db/executor.go\<close>

text \<open>
  The executor drives the statements of one parsed query against a transactional
  key-value store and writes one \<open>Response\<close> per statement to a channel. This theory
  embeds \<open>newExecutor\<close>, \<open>execute\<close>, \<open>conduct\<close>, \<open>operate\<close>, \<open>begin\<close>, \<open>cancel\<close>,
  \<open>commit\<close>, \<open>status\<close>, \<open>detail\<close> and \<open>groupd\<close> as state-passing functions.

  Everything the file calls but does not define (the statement evaluators, the KV store,
  the clock, the context and the live-query notifier) is an input: each call of
  \<open>conduct\<close> is handed a \<open>step\<close> that says what those collaborators answer during that
  statement, and every call the executor makes on them is appended to a list of events.
\<close>

subsection \<open>Values, errors and responses\<close>

text \<open>Rows are \<open>[]interface{}\<close>; a nil slice is \<open>None\<close>.\<close>

datatype val = Null | Number int | Text string | Array "val list"

type_synonym rows = "val list option"

text \<open>
  The dynamic types an \<open>error\<close> value can have, as far as \<open>status\<close> tells them apart.
  \<open>TimerError\<close> carries its \<open>timer\<close> field (a \<open>time.Duration\<close>, in nanoseconds); the other
  constructors carry a tag that identifies the value. The \<open>Error()\<close> methods are defined
  outside the file: the functions that need the text of an error take the method as their
  first argument.
\<close>

datatype error =
    DBError string
  | KVError string
  | PermsError string
  | ExistError string
  | FieldError string
  | IndexError string
  | TimerError (timer: int)
  | OtherError string

text \<open>
  Modelled from the spec: the variable \<open>errQueryNotExecuted\<close> is declared outside the
  file; the spec gives it status \<open>ERR\<close>, so it is an error of none of the listed types.
\<close>

definition errQueryNotExecuted :: error where
  "errQueryNotExecuted = OtherError ''Query not executed.''"

text \<open>
  \<open>Time\<close> holds the duration \<open>time.Since(now)\<close> in nanoseconds (the source stores its
  rendering by \<open>String()\<close>).
\<close>

record Response =
  Time :: int
  Status :: string
  Detail :: string
  Result :: "val list"

fun status :: "error option \<Rightarrow> string" where
  "status None = ''OK''"
| "status (Some (DBError _)) = ''ERR_DB''"
| "status (Some (KVError _)) = ''ERR_KV''"
| "status (Some (PermsError _)) = ''ERR_PE''"
| "status (Some (ExistError _)) = ''ERR_EX''"
| "status (Some (FieldError _)) = ''ERR_FD''"
| "status (Some (IndexError _)) = ''ERR_IX''"
| "status (Some (TimerError _)) = ''ERR_TO''"
| "status (Some (OtherError _)) = ''ERR''"

definition detail :: "(error \<Rightarrow> string) \<Rightarrow> error option \<Rightarrow> string" where
  "detail errtext e = (case e of None \<Rightarrow> [] | Some err \<Rightarrow> errtext err)"

text \<open>\<open>append([]interface{}{}, res...)\<close>: a fresh slice, empty when \<open>res\<close> is nil.\<close>

definition append_rows :: "val list \<Rightarrow> rows \<Rightarrow> val list" where
  "append_rows xs res = (case res of None \<Rightarrow> xs | Some r \<Rightarrow> xs @ r)"

text \<open>
  \<open>time.Since(now)\<close> for a clock reading \<open>t\<close>; instants are nanoseconds counted from the
  zero \<open>time.Time\<close>, and the difference saturates at the bounds of \<open>int64\<close>.
\<close>

definition Since :: "int \<Rightarrow> int \<Rightarrow> int" where
  "Since now t =
     (let d = t - now
      in if d > 9223372036854775807 then 9223372036854775807
         else if d < - 9223372036854775808 then - 9223372036854775808
         else d)"

subsection \<open>Statements\<close>

text \<open>
  The dynamic type of a \<open>sql.Statement\<close>. The first three are the transaction statements
  of \<open>conduct\<close>, the next thirty-four are the cases of the switch in \<open>operate\<close>, in its
  order, and \<open>OtherStatement\<close> is any other type.
\<close>

datatype stm_kind =
    BeginStatement | CancelStatement | CommitStatement
  | OptStatement | UseStatement | RunStatement | InfoStatement
  | LetStatement | ReturnStatement
  | LiveStatement | KillStatement
  | IfelseStatement | SelectStatement | CreateStatement | UpdateStatement
  | DeleteStatement | RelateStatement
  | InsertStatement | UpsertStatement
  | DefineNamespaceStatement | RemoveNamespaceStatement
  | DefineDatabaseStatement | RemoveDatabaseStatement
  | DefineLoginStatement | RemoveLoginStatement
  | DefineTokenStatement | RemoveTokenStatement
  | DefineScopeStatement | RemoveScopeStatement
  | DefineTableStatement | RemoveTableStatement
  | DefineEventStatement | RemoveEventStatement
  | DefineFieldStatement | RemoveFieldStatement
  | DefineIndexStatement | RemoveIndexStatement
  | OtherStatement

text \<open>
  A statement: its type, what \<open>Writeable()\<close> answers when the type implements
  \<open>sql.WriteableStatement\<close>, what \<open>Duration()\<close> answers (nanoseconds) when it implements
  \<open>sql.KillableStatement\<close>, and its text.
\<close>

record statement =
  kind :: stm_kind
  Writeable :: "bool option"
  Duration :: "int option"
  src :: string

text \<open>The evaluator the switch of \<open>operate\<close> calls for a statement, if any.\<close>

fun evaluator :: "stm_kind \<Rightarrow> string option" where
  "evaluator OptStatement = Some ''executeOpt''"
| "evaluator UseStatement = Some ''executeUse''"
| "evaluator RunStatement = Some ''executeRun''"
| "evaluator InfoStatement = Some ''executeInfo''"
| "evaluator LetStatement = Some ''executeLet''"
| "evaluator ReturnStatement = Some ''executeReturn''"
| "evaluator LiveStatement = Some ''executeLive''"
| "evaluator KillStatement = Some ''executeKill''"
| "evaluator IfelseStatement = Some ''executeIfelse''"
| "evaluator SelectStatement = Some ''executeSelect''"
| "evaluator CreateStatement = Some ''executeCreate''"
| "evaluator UpdateStatement = Some ''executeUpdate''"
| "evaluator DeleteStatement = Some ''executeDelete''"
| "evaluator RelateStatement = Some ''executeRelate''"
| "evaluator InsertStatement = Some ''executeInsert''"
| "evaluator UpsertStatement = Some ''executeUpsert''"
| "evaluator DefineNamespaceStatement = Some ''executeDefineNamespace''"
| "evaluator RemoveNamespaceStatement = Some ''executeRemoveNamespace''"
| "evaluator DefineDatabaseStatement = Some ''executeDefineDatabase''"
| "evaluator RemoveDatabaseStatement = Some ''executeRemoveDatabase''"
| "evaluator DefineLoginStatement = Some ''executeDefineLogin''"
| "evaluator RemoveLoginStatement = Some ''executeRemoveLogin''"
| "evaluator DefineTokenStatement = Some ''executeDefineToken''"
| "evaluator RemoveTokenStatement = Some ''executeRemoveToken''"
| "evaluator DefineScopeStatement = Some ''executeDefineScope''"
| "evaluator RemoveScopeStatement = Some ''executeRemoveScope''"
| "evaluator DefineTableStatement = Some ''executeDefineTable''"
| "evaluator RemoveTableStatement = Some ''executeRemoveTable''"
| "evaluator DefineEventStatement = Some ''executeDefineEvent''"
| "evaluator RemoveEventStatement = Some ''executeRemoveEvent''"
| "evaluator DefineFieldStatement = Some ''executeDefineField''"
| "evaluator RemoveFieldStatement = Some ''executeRemoveField''"
| "evaluator DefineIndexStatement = Some ''executeDefineIndex''"
| "evaluator RemoveIndexStatement = Some ''executeRemoveIndex''"
| "evaluator BeginStatement = None"
| "evaluator CancelStatement = None"
| "evaluator CommitStatement = None"
| "evaluator OtherStatement = None"

subsection \<open>The transaction handle, the channel and the executor\<close>

text \<open>
  Modelled from the spec: \<open>mem.Cache\<close>, the type of the field \<open>dbo\<close>, is defined outside
  the file. The spec (TxnHandle) says it owns a KV transaction plus a closed flag, that
  after \<open>Commit\<close> or \<open>Cancel\<close> the handle is closed and further operations are no-ops,
  and that \<open>Reset\<close> drops the reference. \<open>TX\<close> is \<open>None\<close> for a nil transaction.
\<close>

record kvtx =
  rw :: bool
  closed :: bool

record Cache =
  TX :: "kvtx option"

text \<open>
  The calls the executor makes on its collaborators, in the order it makes them:
  \<open>db.Begin\<close> with its flag, \<open>Cancel\<close> and \<open>Commit\<close> reaching an open transaction, the
  notifier's \<open>clear(id)\<close> and \<open>flush(id)\<close>, and an evaluator with its statement.
\<close>

datatype event =
    KVBegin bool
  | KVCancel
  | KVCommit
  | LiveClear string
  | LiveFlush string
  | Eval string statement

definition mem_New :: Cache where
  "mem_New = \<lparr>TX = None\<rparr>"

definition Closed :: "Cache \<Rightarrow> bool" where
  "Closed c = (case TX c of None \<Rightarrow> True | Some t \<Rightarrow> closed t)"

definition Reset :: "Cache \<Rightarrow> Cache" where
  "Reset c = c\<lparr>TX := None\<rparr>"

definition Cancel :: "Cache \<Rightarrow> event list \<Rightarrow> Cache \<times> event list" where
  "Cancel c log =
     (case TX c of
        None \<Rightarrow> (c, log)
      | Some t \<Rightarrow>
          if closed t then (c, log)
          else (c\<lparr>TX := Some (t\<lparr>closed := True\<rparr>)\<rparr>, log @ [KVCancel]))"

definition Commit :: "Cache \<Rightarrow> event list \<Rightarrow> Cache \<times> event list" where
  "Commit c log =
     (case TX c of
        None \<Rightarrow> (c, log)
      | Some t \<Rightarrow>
          if closed t then (c, log)
          else (c\<lparr>TX := Some (t\<lparr>closed := True\<rparr>)\<rparr>, log @ [KVCommit]))"

text \<open>
  The struct \<open>mutex\<close> is declared outside the file; its state is summarised by a counter,
  zero for \<open>new(mutex)\<close>. A nil \<open>*mutex\<close> is \<open>None\<close>.
\<close>

datatype mutex = Mutex nat

definition new_mutex :: mutex where
  "new_mutex = Mutex 0"

text \<open>The options the spec lists; \<open>newOptions\<close> is outside the file and is a parameter.\<close>

record options =
  opt_import :: bool
  opt_force :: bool
  opt_fields :: bool
  opt_events :: bool
  opt_tables :: bool

text \<open>
  The response channel: the responses sent so far, in order, and whether it has been
  closed. The channel is unbuffered; the receiver is taken to drain it.
\<close>

record chan =
  delivered :: "Response list"
  shut :: bool

definition make_chan :: chan where
  "make_chan = \<lparr>delivered = [], shut = False\<rparr>"

definition chan_send :: "chan \<Rightarrow> Response \<Rightarrow> chan" where
  "chan_send c r = c\<lparr>delivered := delivered c @ [r]\<rparr>"

definition chan_close :: "chan \<Rightarrow> chan" where
  "chan_close c = c\<lparr>shut := True\<rparr>"

text \<open>The struct \<open>executor\<close>, field by field (\<open>id\<close> is written \<open>id_e\<close>).\<close>

record executor =
  id_e :: string
  ns :: string
  db :: string
  dbo :: Cache
  time :: int
  lock :: "mutex option"
  opts :: options
  send :: chan
  cache :: "((string \<times> string) \<times> val) list"

subsection \<open>What the collaborators answer during one statement\<close>

text \<open>
  One \<open>step\<close> per statement of the query:
  \<^item> \<open>ctx_cancelled\<close>: \<open>ctx.Done()\<close> is ready at the head of the loop of \<open>execute\<close>;
  \<^item> \<open>t_now\<close>, \<open>t_stamp\<close>, \<open>t_end\<close>: the clock in \<open>conduct\<close>, in \<open>operate\<close>, and when the
    response is built;
  \<^item> \<open>begin_err\<close>: the error of \<open>db.Begin\<close>;
  \<^item> \<open>ev_upd\<close>, \<open>ev_res\<close>, \<open>ev_err\<close>, \<open>ev_panics\<close>: what the evaluator does to the executor,
    what it returns, and whether it panics instead of returning;
  \<^item> \<open>ctx_done\<close>: the context of \<open>operate\<close> (the deadline-bounded one when the statement
    has a duration) is done right after the evaluator; \<open>ctx_late\<close>: it is done only by
    the time \<open>operate\<close> returns;
  \<^item> \<open>kv_err\<close>: the error of the \<open>Cancel\<close> or \<open>Commit\<close> whose result the code keeps.
\<close>

record step =
  ctx_cancelled :: bool
  t_now :: int
  begin_err :: "error option"
  t_stamp :: int
  ev_upd :: "executor \<Rightarrow> executor"
  ev_res :: rows
  ev_err :: "error option"
  ev_panics :: bool
  ctx_done :: bool
  ctx_late :: bool
  kv_err :: "error option"
  t_end :: int

text \<open>
  Modelled from the spec: \<open>db.Begin\<close> is outside the file. It yields a transaction or an
  error; on an error the transaction is nil.
\<close>

definition db_Begin :: "step \<Rightarrow> bool \<Rightarrow> kvtx option \<times> error option" where
  "db_Begin env w =
     (case begin_err env of
        None \<Rightarrow> (Some \<lparr>rw = w, closed = False\<rparr>, None)
      | Some err \<Rightarrow> (None, Some err))"

text \<open>
  Modelled from the spec: the evaluators are outside the file. An evaluator may change
  the executor, but not \<open>id\<close> (stable for one \<open>execute\<close> call) and not \<open>send\<close> (the
  executor is the channel's only producer).
\<close>

definition run_evaluator :: "step \<Rightarrow> executor \<Rightarrow> executor" where
  "run_evaluator env e = (ev_upd env e)\<lparr>id_e := id_e e, send := send e\<rparr>"

subsection \<open>newExecutor\<close>

text \<open>
  \<open>pooled\<close> is what \<open>executorPool.Get()\<close> returns: an executor as a previous \<open>execute\<close>
  put it back, or a new one.
\<close>

definition newExecutor ::
  "options \<Rightarrow> executor \<Rightarrow> string \<Rightarrow> string \<Rightarrow> string \<Rightarrow> executor" where
  "newExecutor newOptions pooled i n d =
     pooled\<lparr>id_e := i, ns := n, db := d, dbo := mem_New, opts := newOptions,
            send := make_chan, cache := []\<rparr>"

subsection \<open>begin, cancel, commit, groupd\<close>

definition begin_tx ::
  "step \<Rightarrow> bool \<Rightarrow> executor \<Rightarrow> event list \<Rightarrow> executor \<times> event list \<times> error option" where
  "begin_tx env w e log =
     (if TX (dbo e) = None
      then (case db_Begin env w of
              (tx, err) \<Rightarrow> (e\<lparr>dbo := mem_New\<lparr>TX := tx\<rparr>\<rparr>, log @ [KVBegin w], err))
      else (e, log, None))"

text \<open>
  The loop \<open>for i := len(buf) - 1; i >= 0; i-- { buf[len(buf)-1] = nil; buf = buf[:len(buf)-1] }\<close>
  shared by \<open>cancel\<close>, \<open>commit\<close> and \<open>groupd\<close>. It starts at \<open>len(buf) - 1\<close>, so the index
  \<open>len(buf) - 1\<close> is in range in every round.
\<close>

function drain :: "int \<Rightarrow> 'a list \<Rightarrow> 'a list" where
  "drain i buf = (if 0 \<le> i then drain (i - 1) (butlast buf) else buf)"
  by pat_completeness auto
termination
  by (relation "measure (\<lambda>(i, buf). nat (i + 1))") auto

text \<open>The first loop of \<open>cancel\<close>: rewrite each response, then send it.\<close>

primrec cancel_send :: "Response list \<Rightarrow> chan \<Rightarrow> chan" where
  "cancel_send [] chn = chn"
| "cancel_send (v # vs) chn =
     cancel_send vs
       (chan_send chn (v\<lparr>Status := ''ERR'', Result := [], Detail := ''Transaction cancelled''\<rparr>))"

definition cancel ::
  "step \<Rightarrow> executor \<Rightarrow> event list \<Rightarrow> Response list \<Rightarrow> error option \<Rightarrow> chan
     \<Rightarrow> executor \<times> event list \<times> error option \<times> Response list \<times> chan" where
  "cancel env e log buf err chn =
     (if TX (dbo e) = None then (e\<lparr>dbo := Reset (dbo e)\<rparr>, log, None, buf, chn)
      else (case Cancel (dbo e) log of
              (c, l) \<Rightarrow>
                (e\<lparr>dbo := Reset c\<rparr>, l, kv_err env,
                 drain (int (length buf) - 1) buf, cancel_send buf chn)))"

text \<open>The first loop of \<open>commit\<close>: rewrite a response only when \<open>err\<close> is set, then send it.\<close>

primrec commit_send ::
  "(error \<Rightarrow> string) \<Rightarrow> error option \<Rightarrow> Response list \<Rightarrow> chan \<Rightarrow> chan" where
  "commit_send errtext err [] chn = chn"
| "commit_send errtext err (v # vs) chn =
     commit_send errtext err vs
       (chan_send chn
          (case err of
             Some x \<Rightarrow>
               v\<lparr>Status := ''ERR'', Result := [],
                 Detail := ''Transaction failed: '' @ errtext x\<rparr>
           | None \<Rightarrow> v))"

definition commit ::
  "(error \<Rightarrow> string) \<Rightarrow> step \<Rightarrow> executor \<Rightarrow> event list \<Rightarrow> Response list \<Rightarrow> error option
     \<Rightarrow> chan \<Rightarrow> executor \<times> event list \<times> error option \<times> Response list \<times> chan" where
  "commit errtext env e log buf err chn =
     (if TX (dbo e) = None then (e\<lparr>dbo := Reset (dbo e)\<rparr>, log, None, buf, chn)
      else (case (if err \<noteq> None then Cancel (dbo e) log else Commit (dbo e) log) of
              (c, l) \<Rightarrow>
                (e\<lparr>dbo := Reset c\<rparr>, l, kv_err env,
                 drain (int (length buf) - 1) buf,
                 commit_send errtext (kv_err env) buf chn)))"

definition groupd :: "Response list \<Rightarrow> Response \<Rightarrow> Response list" where
  "groupd buf rsp = drain (int (length buf) - 1) buf @ [rsp]"

text \<open>
  The end of \<open>conduct\<close>: inside a global transaction the response is buffered, and a
  \<open>RETURN\<close> statement replaces the buffer by its own response.
\<close>

definition buffer_rsp ::
  "executor \<Rightarrow> statement \<Rightarrow> Response list \<Rightarrow> Response \<Rightarrow> Response list" where
  "buffer_rsp e stm buf rsp =
     (if TX (dbo e) \<noteq> None
      then (if kind stm = ReturnStatement then groupd buf rsp else buf @ [rsp])
      else buf)"

subsection \<open>operate\<close>

text \<open>
  The switch of \<open>operate\<close>. A statement of none of the listed types runs no evaluator
  and leaves \<open>res\<close> and \<open>err\<close> nil. The result is \<open>None\<close> when the evaluator panics.
\<close>

definition dispatch ::
  "step \<Rightarrow> executor \<Rightarrow> event list \<Rightarrow> statement
     \<Rightarrow> executor \<times> event list \<times> (rows \<times> error option) option" where
  "dispatch env e log stm =
     (case evaluator (kind stm) of
        None \<Rightarrow> (e, log, Some (None, None))
      | Some name \<Rightarrow>
          (run_evaluator env e, log @ [Eval name stm],
           if ev_panics env then None else Some (ev_res env, ev_err env)))"

text \<open>
  The \<open>select\<close> after the switch. \<open>loc\<close> and \<open>trw\<close> are the locals of \<open>operate\<close>. The last
  component says whether \<open>defer e.dbo.Reset()\<close> was reached.
\<close>

definition finalize ::
  "step \<Rightarrow> bool \<Rightarrow> bool \<Rightarrow> executor \<Rightarrow> event list \<Rightarrow> rows \<Rightarrow> error option
     \<Rightarrow> executor \<times> event list \<times> rows \<times> error option \<times> bool" where
  "finalize env loc trw e log res err =
     (if ctx_done env then
        (case Cancel (dbo e) log of
           (c, l) \<Rightarrow> (e\<lparr>dbo := Reset c\<rparr>, l @ [LiveClear (id_e e)], res, err, False))
      else if loc \<and> Closed (dbo e) = False then
        (if err \<noteq> None then
           (case Cancel (dbo e) log of
              (c, l) \<Rightarrow> (e\<lparr>dbo := c\<rparr>, l @ [LiveClear (id_e e)], res, err, True))
         else if \<not> trw then
           (case Cancel (dbo e) log of
              (c, l) \<Rightarrow> (e\<lparr>dbo := c\<rparr>, l @ [LiveClear (id_e e)], res, kv_err env, True))
         else
           (case Commit (dbo e) log of
              (c, l) \<Rightarrow>
                (e\<lparr>dbo := c\<rparr>,
                 l @ [if kv_err env \<noteq> None then LiveClear (id_e e) else LiveFlush (id_e e)],
                 res, kv_err env, True)))
      else (e, log, res, err, False))"

text \<open>
  The deferred closure of a statement with a positive duration: when \<open>err\<close> is nil and
  \<open>ctx.Err()\<close> is not, the result becomes nil rows and a \<open>TimerError\<close>.
\<close>

definition timer_check :: "step \<Rightarrow> statement \<Rightarrow> rows \<Rightarrow> error option \<Rightarrow> rows \<times> error option" where
  "timer_check env stm res err =
     (case Duration stm of
        None \<Rightarrow> (res, err)
      | Some d \<Rightarrow>
          if 0 < d then
            (if err = None \<and> (ctx_done env \<or> ctx_late env)
             then (None, Some (TimerError d)) else (res, err))
          else (res, err))"

text \<open>
  What \<open>operate\<close> does to the executor between \<open>begin\<close> and the switch: a new mutex for
  a local transaction, and the time of this statement.
\<close>

definition before_eval :: "step \<Rightarrow> bool \<Rightarrow> executor \<Rightarrow> executor" where
  "before_eval env loc e =
     (if loc then e\<lparr>lock := Some new_mutex\<rparr> else e)\<lparr>time := t_stamp env\<rparr>"

text \<open>
  \<open>operate\<close>. The deferred calls run at the return in reverse order: \<open>Reset\<close> (when
  reached), the timer closure, and \<open>Cancel\<close> of the local transaction. When the
  evaluator panics, \<open>operate\<close> does not return: the deferred \<open>Cancel\<close> runs and the
  result is \<open>None\<close>.
\<close>

definition operate ::
  "step \<Rightarrow> executor \<Rightarrow> event list \<Rightarrow> statement
     \<Rightarrow> executor \<times> event list \<times> (rows \<times> error option) option" where
  "operate env e log stm =
     (let loc = (TX (dbo e) = None);
          trw = (loc \<and> (case Writeable stm of Some w \<Rightarrow> w | None \<Rightarrow> False))
      in case (if loc then begin_tx env trw e log else (e, log, None)) of
           (e1, l1, Some err) \<Rightarrow> (e1, l1, Some (None, Some err))
         | (e1, l1, None) \<Rightarrow>
             (case dispatch env (before_eval env loc e1) l1 stm of
                (e4, l4, None) \<Rightarrow>
                  (case (if loc then Cancel (dbo e4) l4 else (dbo e4, l4)) of
                     (c, l) \<Rightarrow> (e4\<lparr>dbo := c\<rparr>, l, None))
              | (e4, l4, Some (res, err)) \<Rightarrow>
                  (case finalize env loc trw e4 l4 res err of
                     (e5, l5, res5, err5, dreset) \<Rightarrow>
                       (let e6 = (if dreset then e5\<lparr>dbo := Reset (dbo e5)\<rparr> else e5)
                        in case (if loc then Cancel (dbo e6) l5 else (dbo e6, l5)) of
                             (c, l) \<Rightarrow>
                               (e6\<lparr>dbo := c\<rparr>, l, Some (timer_check env stm res5 err5))))))"

subsection \<open>conduct and execute\<close>

text \<open>
  \<open>conduct\<close>. Its variables \<open>err\<close>, \<open>now\<close> and \<open>buf\<close> are locals: each call starts with a nil
  \<open>err\<close>, the zero \<open>now\<close> and a nil \<open>buf\<close>. The function returns nothing; the third
  component here is the value \<open>buf\<close> has when the call ends, and the fourth says that the
  evaluator panicked.
\<close>

definition conduct ::
  "(error \<Rightarrow> string) \<Rightarrow> step \<Rightarrow> executor \<Rightarrow> event list \<Rightarrow> statement
     \<Rightarrow> executor \<times> event list \<times> Response list \<times> bool" where
  "conduct errtext env e log stm =
     (let err0 = (None :: error option);
          buf = ([] :: Response list);
          err = (if TX (dbo e) = None then None else err0);
          now = (if TX (dbo e) = None then t_now env else 0)
      in if kind stm = BeginStatement then
           (case begin_tx env True (e\<lparr>lock := Some new_mutex\<rparr>) log of
              (e1, l1, err1) \<Rightarrow> (e1, l1, buf, False))
         else if kind stm = CancelStatement then
           (case cancel env e log buf err (send e) of
              (e1, l1, err1, buf1, chn) \<Rightarrow>
                (e1\<lparr>send := chn\<rparr>, l1 @ [LiveClear (id_e e1)], buf1, False))
         else if kind stm = CommitStatement then
           (case commit errtext env e log buf err (send e) of
              (e1, l1, err1, buf1, chn) \<Rightarrow>
                (e1\<lparr>send := chn\<rparr>,
                 l1 @ [if err1 \<noteq> None then LiveClear (id_e e1) else LiveFlush (id_e e1)],
                 buf1, False))
         else
           (case (if err = None then operate env e log stm
                  else (e, log, Some (Some [], Some errQueryNotExecuted))) of
              (e1, l1, None) \<Rightarrow> (e1, l1, buf, True)
            | (e1, l1, Some (res, err1)) \<Rightarrow>
                (let rsp = \<lparr>Time = Since now (t_end env), Status = status err1,
                            Detail = detail errtext err1, Result = append_rows [] res\<rparr>
                 in ((if TX (dbo e1) = None then e1\<lparr>send := chan_send (send e1) rsp\<rparr> else e1),
                     l1, buffer_rsp e1 stm buf rsp, False))))"

text \<open>
  The loop of \<open>execute\<close> over the statements, each with the step of the collaborators
  during it. The loop ends at the first statement that finds the context done, and at a
  panic (the third component).
\<close>

fun run_statements ::
  "(error \<Rightarrow> string) \<Rightarrow> executor \<Rightarrow> event list \<Rightarrow> (statement \<times> step) list
     \<Rightarrow> executor \<times> event list \<times> bool" where
  "run_statements errtext e log [] = (e, log, False)"
| "run_statements errtext e log ((stm, env) # rest) =
     (if ctx_cancelled env then (e, log, False)
      else (case conduct errtext env e log stm of
              (e1, l1, buf, panicked) \<Rightarrow>
                if panicked then (e1, l1, True) else run_statements errtext e1 l1 rest))"

text \<open>
  \<open>execute\<close> with its deferred calls, in the order they run: the recovery of a panic
  (which only logs), the cancelling of a transaction left open, the closing of the
  channel, and the return of the executor to the pool (the executor of the result).
\<close>

definition execute ::
  "(error \<Rightarrow> string) \<Rightarrow> executor \<Rightarrow> event list \<Rightarrow> (statement \<times> step) list
     \<Rightarrow> executor \<times> event list" where
  "execute errtext e log ast =
     (case run_statements errtext e log ast of
        (e1, l1, panicked) \<Rightarrow>
          (case (if TX (dbo e1) \<noteq> None
                 then (case Cancel (dbo e1) l1 of
                         (c, l) \<Rightarrow> (e1\<lparr>dbo := c\<rparr>, l @ [LiveClear (id_e e1)]))
                 else (e1, l1)) of
             (e2, l2) \<Rightarrow> (e2\<lparr>send := chan_close (send e2)\<rparr>, l2)))"

subsection \<open>Sample inputs\<close>

text \<open>
  Concrete inputs for the examples below: a stand-in for the \<open>Error()\<close> methods, an
  executor as \<open>newExecutor\<close> delivers it, a step in which nothing goes wrong (the
  evaluator returns one row and leaves the executor alone), and statements.
\<close>

definition plain_text :: "error \<Rightarrow> string" where
  "plain_text err =
     (case err of
        DBError s \<Rightarrow> s | KVError s \<Rightarrow> s | PermsError s \<Rightarrow> s | ExistError s \<Rightarrow> s
      | FieldError s \<Rightarrow> s | IndexError s \<Rightarrow> s | TimerError d \<Rightarrow> ''Query timeout''
      | OtherError s \<Rightarrow> s)"

definition no_options :: options where
  "no_options =
     \<lparr>opt_import = False, opt_force = False, opt_fields = False, opt_events = False,
      opt_tables = False\<rparr>"

definition fresh :: executor where
  "fresh =
     \<lparr>id_e = ''q1'', ns = ''test'', db = ''test'', dbo = mem_New, time = 0, lock = None,
      opts = no_options, send = make_chan, cache = []\<rparr>"

definition calm :: step where
  "calm =
     \<lparr>ctx_cancelled = False, t_now = 1000, begin_err = None, t_stamp = 1001,
      ev_upd = (\<lambda>e. e), ev_res = Some [Number 1], ev_err = None, ev_panics = False,
      ctx_done = False, ctx_late = False, kv_err = None, t_end = 1005\<rparr>"

definition stm_of :: "stm_kind \<Rightarrow> statement" where
  "stm_of k = \<lparr>kind = k, Writeable = None, Duration = None, src = []\<rparr>"

definition create_stm :: statement where
  "create_stm = \<lparr>kind = CreateStatement, Writeable = Some True, Duration = None, src = ''CREATE x''\<rparr>"

definition select_stm :: statement where
  "select_stm =
     \<lparr>kind = SelectStatement, Writeable = None, Duration = None, src = ''SELECT * FROM t''\<rparr>"

definition slow_stm :: statement where
  "slow_stm =
     \<lparr>kind = SelectStatement, Writeable = None, Duration = Some 10,
      src = ''SELECT * FROM t TIMEOUT 10ns''\<rparr>"

text \<open>A transaction in progress on \<open>fresh\<close>, as \<open>BEGIN\<close> leaves it.\<close>

definition in_tx :: executor where
  "in_tx = fresh\<lparr>dbo := \<lparr>TX = Some \<lparr>rw = True, closed = False\<rparr>\<rparr>, lock := Some new_mutex\<rparr>"

section \<open>Properties\<close>

subsection \<open>Auxiliary facts\<close>

declare drain.simps [simp del]

lemma drain_len: "i + 1 = int (length buf) \<Longrightarrow> drain i buf = []"
proof (induction i buf rule: drain.induct)
  case (1 i buf)
  show ?case
  proof (cases "0 \<le> i")
    case True
    with "1.prems" have "i - 1 + 1 = int (length (butlast buf))" by simp
    with "1.IH" True have "drain (i - 1) (butlast buf) = []" by simp
    with True show ?thesis by (simp add: drain.simps [of i buf])
  next
    case False
    with "1.prems" have "length buf = 0" by arith
    with False show ?thesis by (simp add: drain.simps [of i])
  qed
qed

lemma drain_all: "drain (int (length buf) - 1) buf = []"
  by (rule drain_len) simp


lemma Reset_Cancel: "Reset (fst (Cancel c log)) = Reset c"
  by (simp add: Cancel_def Reset_def split: option.splits)

lemma Reset_Commit: "Reset (fst (Commit c log)) = Reset c"
  by (simp add: Commit_def Reset_def split: option.splits)

lemma Cancel_Reset: "Cancel (Reset c) log = (Reset c, log)"
  by (simp add: Cancel_def Reset_def)

lemma TX_Reset: "TX (Reset c) = None"
  by (simp add: Reset_def)

lemma Cancel_open: "Closed c = False \<Longrightarrow> snd (Cancel c log) = log @ [KVCancel]"
  by (auto simp add: Cancel_def Closed_def split: option.splits)

lemma Commit_open: "Closed c = False \<Longrightarrow> snd (Commit c log) = log @ [KVCommit]"
  by (auto simp add: Commit_def Closed_def split: option.splits)

lemma Cancel_log: "snd (Cancel c log) = (if Closed c then log else log @ [KVCancel])"
  by (auto simp add: Cancel_def Closed_def split: option.splits)

lemma timer_check_error: "err \<noteq> None \<Longrightarrow> timer_check env stm res err = (res, err)"
  by (auto simp add: timer_check_def split: option.splits)

lemma cancel_send_delivered:
  "cancel_send buf chn =
     chn\<lparr>delivered := delivered chn @
       map (\<lambda>v. v\<lparr>Status := ''ERR'', Result := [], Detail := ''Transaction cancelled''\<rparr>) buf\<rparr>"
  by (induction buf arbitrary: chn) (simp_all add: chan_send_def)

lemma commit_send_delivered:
  "commit_send errtext err buf chn =
     chn\<lparr>delivered := delivered chn @
       map (\<lambda>v. case err of
                   Some x \<Rightarrow> v\<lparr>Status := ''ERR'', Result := [],
                               Detail := ''Transaction failed: '' @ errtext x\<rparr>
                 | None \<Rightarrow> v) buf\<rparr>"
  by (induction buf arbitrary: chn) (simp_all add: chan_send_def)

text \<open>The evaluators and \<open>begin\<close> leave the channel and the id alone.\<close>

lemma begin_tx_frame:
  "begin_tx env w e log = (e1, l1, r) \<Longrightarrow> send e1 = send e \<and> id_e e1 = id_e e"
  by (auto simp add: begin_tx_def split: if_splits prod.splits)

lemma dispatch_frame:
  "dispatch env e log stm = (e4, l4, r) \<Longrightarrow> send e4 = send e \<and> id_e e4 = id_e e"
  by (auto simp add: dispatch_def run_evaluator_def split: option.splits)

lemma before_eval_frame:
  "send (before_eval env loc e) = send e \<and> id_e (before_eval env loc e) = id_e e
   \<and> dbo (before_eval env loc e) = dbo e"
  by (simp add: before_eval_def)

text \<open>
  When \<open>begin\<close> does not fail and the evaluator does not panic, \<open>operate\<close> reaches the
  \<open>select\<close> after the switch.
\<close>

lemma operate_returns:
  assumes "TX (dbo e) \<noteq> None \<or> begin_err env = None" and "ev_panics env = False"
  shows "\<exists>e1 l1 e4 l4 res.
           (if TX (dbo e) = None
            then begin_tx env
                   (TX (dbo e) = None \<and> (case Writeable stm of Some w \<Rightarrow> w | None \<Rightarrow> False))
                   e log
            else (e, log, None)) = (e1, l1, None)
         \<and> dispatch env (before_eval env (TX (dbo e) = None) e1) l1 stm
             = (e4, l4, Some (res, if evaluator (kind stm) = None then None else ev_err env))"
  using assms
  by (auto simp add: begin_tx_def db_Begin_def dispatch_def split: option.splits)

text \<open>
  \<open>operate\<close> when the context is done right after the evaluator: the transaction is
  cancelled, the handle reset, \<open>clear(id)\<close> called, and the timer closure decides the
  result.
\<close>

lemma operate_when_done:
  assumes trw: "trw = (TX (dbo e) = None \<and> (case Writeable stm of Some w \<Rightarrow> w | None \<Rightarrow> False))"
    and begun: "(if TX (dbo e) = None then begin_tx env trw e log else (e, log, None))
                  = (e1, l1, None)"
    and evaluated: "dispatch env (before_eval env (TX (dbo e) = None) e1) l1 stm
                  = (e4, l4, Some (res, err))"
    and expired: "ctx_done env"
  shows "operate env e log stm =
           (e4\<lparr>dbo := Reset (dbo e4)\<rparr>, snd (Cancel (dbo e4) l4) @ [LiveClear (id_e e4)],
            Some (timer_check env stm res err))"
proof (cases "TX (dbo e) = None")
  case True
  with begun trw evaluated expired show ?thesis
    by (simp add: operate_def finalize_def split_beta Reset_Cancel Cancel_Reset)
next
  case False
  with begun trw evaluated expired show ?thesis
    by (auto simp add: operate_def finalize_def split_beta Reset_Cancel Cancel_Reset)
qed

lemma run_statements_cancelled:
  "ctx_cancelled env \<Longrightarrow>
     run_statements errtext e log (pre @ (stm, env) # rest) = run_statements errtext e log pre"
  by (induction pre arbitrary: e log) (auto split: prod.splits)

lemmas sample_defs =
  fresh_def calm_def stm_of_def create_stm_def select_stm_def slow_stm_def in_tx_def
  no_options_def plain_text_def mem_New_def make_chan_def new_mutex_def

lemmas run_defs =
  execute_def conduct_def operate_def begin_tx_def db_Begin_def dispatch_def finalize_def
  before_eval_def Cancel_def Commit_def Closed_def Reset_def timer_check_def
  run_evaluator_def commit_def cancel_def buffer_rsp_def detail_def append_rows_def
  Since_def chan_close_def chan_send_def groupd_def

subsection \<open>The sticky error and the response buffer of a global transaction\<close>

text \<open>
  For a statement that is not \<open>BEGIN\<close>, \<open>CANCEL\<close> or \<open>COMMIT\<close>, \<open>conduct\<close> always calls
  \<open>operate\<close>, and the buffer it fills starts empty: \<open>err\<close> and \<open>buf\<close> are locals of
  \<open>conduct\<close>, so no error and no response of an earlier statement reaches a later call.
\<close>

lemma conduct_data_statement:
  assumes "kind stm \<noteq> BeginStatement" "kind stm \<noteq> CancelStatement"
    "kind stm \<noteq> CommitStatement"
  shows "conduct errtext env e log stm =
     (case operate env e log stm of
        (e1, l1, None) \<Rightarrow> (e1, l1, [], True)
      | (e1, l1, Some (res, err)) \<Rightarrow>
          ((if TX (dbo e1) = None
            then e1\<lparr>send := chan_send (send e1)
                   \<lparr>Time = Since (if TX (dbo e) = None then t_now env else 0) (t_end env),
                    Status = status err, Detail = detail errtext err,
                    Result = append_rows [] res\<rparr>\<rparr>
            else e1),
           l1,
           buffer_rsp e1 stm []
             \<lparr>Time = Since (if TX (dbo e) = None then t_now env else 0) (t_end env),
              Status = status err, Detail = detail errtext err, Result = append_rows [] res\<rparr>,
           False))"
  using assms by (simp add: conduct_def Let_def)

text \<open>
  C1. The claim: inside an explicit transaction, the data statements after a failed one
  are not evaluated and get a \<open>QueryNotExecuted\<close> response. The code at the query
  \<open>BEGIN; CREATE x; SELECT * FROM t; COMMIT\<close>, where the evaluator of \<open>CREATE x\<close> returns a
  field error: the evaluator of the \<open>SELECT\<close> is called all the same (its response has
  status \<open>OK\<close>), the transaction is committed and \<open>flush(id)\<close> is called.
\<close>

theorem failed_statement_does_not_stop_evaluation:
  "execute plain_text fresh []
     [(stm_of BeginStatement, calm),
      (create_stm, calm\<lparr>ev_err := Some (FieldError ''bad field'')\<rparr>),
      (select_stm, calm),
      (stm_of CommitStatement, calm)]
   = (fresh\<lparr>time := 1001, lock := Some new_mutex, send := \<lparr>delivered = [], shut = True\<rparr>\<rparr>,
      [KVBegin True, Eval ''executeCreate'' create_stm, Eval ''executeSelect'' select_stm,
       KVCommit, LiveFlush ''q1''])
   \<and> conduct plain_text calm in_tx [Eval ''executeCreate'' create_stm] select_stm
   = (in_tx\<lparr>time := 1001\<rparr>,
      [Eval ''executeCreate'' create_stm, Eval ''executeSelect'' select_stm],
      [\<lparr>Time = 1005, Status = ''OK'', Detail = [], Result = [Number 1]\<rparr>], False)"
  by (simp add: sample_defs run_defs)

text \<open>
  C2. The claim: the responses buffered in an explicit transaction are sent, in order and
  unchanged, when \<open>COMMIT\<close> succeeds. The code at the query \<open>BEGIN; CREATE x; COMMIT\<close>:
  \<open>conduct\<close> puts the response of \<open>CREATE x\<close> into its local \<open>buf\<close>, which ends with the
  call; the \<open>COMMIT\<close> commits and sends nothing, and the channel is closed empty.
\<close>

theorem buffered_responses_not_emitted:
  "conduct plain_text calm in_tx [] create_stm
   = (in_tx\<lparr>time := 1001\<rparr>, [Eval ''executeCreate'' create_stm],
      [\<lparr>Time = 1005, Status = ''OK'', Detail = [], Result = [Number 1]\<rparr>], False)
   \<and> execute plain_text fresh []
     [(stm_of BeginStatement, calm), (create_stm, calm), (stm_of CommitStatement, calm)]
   = (fresh\<lparr>time := 1001, lock := Some new_mutex, send := \<lparr>delivered = [], shut = True\<rparr>\<rparr>,
      [KVBegin True, Eval ''executeCreate'' create_stm, KVCommit, LiveFlush ''q1''])"
  by (simp add: sample_defs run_defs)

text \<open>
  What \<open>cancel\<close> and \<open>commit\<close> do with the buffer they are given, when a transaction is
  present: \<open>cancel\<close> rewrites and sends every response; \<open>commit\<close> sends every response,
  rewritten exactly when the \<open>Cancel\<close> or \<open>Commit\<close> it made returned an error; both
  return an empty buffer.
\<close>

lemma cancel_rewrites_all:
  assumes "TX (dbo e) \<noteq> None"
  shows "cancel env e log buf err chn =
     (e\<lparr>dbo := Reset (dbo e)\<rparr>, snd (Cancel (dbo e) log), kv_err env, [],
      chn\<lparr>delivered := delivered chn @
        map (\<lambda>v. v\<lparr>Status := ''ERR'', Result := [], Detail := ''Transaction cancelled''\<rparr>)
          buf\<rparr>)"
  using assms
  by (auto simp add: cancel_def split_beta Reset_Cancel drain_all cancel_send_delivered)

lemma commit_emits_all:
  assumes "TX (dbo e) \<noteq> None"
  shows "commit errtext env e log buf err chn =
     (e\<lparr>dbo := Reset (dbo e)\<rparr>,
      snd (if err \<noteq> None then Cancel (dbo e) log else Commit (dbo e) log), kv_err env, [],
      chn\<lparr>delivered := delivered chn @
        map (\<lambda>v. case kv_err env of
                    Some x \<Rightarrow> v\<lparr>Status := ''ERR'', Result := [],
                                Detail := ''Transaction failed: '' @ errtext x\<rparr>
                  | None \<Rightarrow> v) buf\<rparr>)"
  using assms
  by (auto simp add: commit_def split_beta Reset_Cancel Reset_Commit drain_all
      commit_send_delivered)

text \<open>
  C3. The claim: when an explicit transaction is cancelled, or its \<open>COMMIT\<close> is reached
  with a sticky error, or its commit fails, every buffered response is sent with status
  \<open>ERR\<close>, no rows and the detail of the failure. The code, at two inputs:
  \<^item> \<open>commit\<close> with one buffered response of status \<open>OK\<close>, a field error as \<open>err\<close>, an open
    transaction and a \<open>Cancel\<close> that returns nil: the transaction is cancelled and the
    response is sent as it is, with status \<open>OK\<close>;
  \<^item> the query \<open>BEGIN; CREATE x; CANCEL\<close>: the transaction is cancelled and nothing is
    sent.
\<close>

theorem rolled_back_responses_not_rewritten:
  "commit plain_text calm in_tx []
     [\<lparr>Time = 5, Status = ''OK'', Detail = [], Result = [Number 1]\<rparr>]
     (Some (FieldError ''bad field'')) make_chan
   = (in_tx\<lparr>dbo := \<lparr>TX = None\<rparr>\<rparr>, [KVCancel], None, [],
      \<lparr>delivered = [\<lparr>Time = 5, Status = ''OK'', Detail = [], Result = [Number 1]\<rparr>],
       shut = False\<rparr>)
   \<and> execute plain_text fresh []
     [(stm_of BeginStatement, calm), (create_stm, calm), (stm_of CancelStatement, calm)]
   = (fresh\<lparr>time := 1001, lock := Some new_mutex, send := \<lparr>delivered = [], shut = True\<rparr>\<rparr>,
      [KVBegin True, Eval ''executeCreate'' create_stm, KVCancel, LiveClear ''q1''])"
  by (simp add: sample_defs run_defs drain.simps)

subsection \<open>RETURN inside a transaction\<close>



subsection \<open>The end of a local transaction\<close>

text \<open>
  C5. \<open>operate\<close> found no transaction, \<open>begin\<close> opened one (\<open>e1\<close>, without error), the
  evaluator returned \<open>(res, err)\<close> and left the executor \<open>e4\<close> with its transaction still
  open, and the context is not done. Then:
  \<^item> if \<open>err\<close> is set, the transaction is cancelled, \<open>clear(id)\<close> is called and \<open>err\<close> is
    returned;
  \<^item> otherwise a read-only transaction is cancelled (and \<open>clear(id)\<close> called);
  \<^item> otherwise the transaction is committed, followed by \<open>flush(id)\<close> when \<open>Commit\<close>
    returned no error and by \<open>clear(id)\<close> when it did, and an error of \<open>Commit\<close> is the
    error returned.
  In each case the handle is reset. When neither the evaluator nor \<open>Commit\<close>/\<open>Cancel\<close>
  returned an error, the deferred timer closure still decides the result.
\<close>

theorem operate_implicit_finalization:
  assumes implicit: "TX (dbo e) = None"
    and trw: "trw = (case Writeable stm of Some w \<Rightarrow> w | None \<Rightarrow> False)"
    and opened: "begin_tx env trw e log = (e1, l1, None)"
    and evaluated: "dispatch env (before_eval env True e1) l1 stm = (e4, l4, Some (res, err))"
    and still_open: "Closed (dbo e4) = False"
    and not_cancelled: "ctx_done env = False"
  shows "operate env e log stm =
           (e4\<lparr>dbo := Reset (dbo e4)\<rparr>,
            l4 @ (if err \<noteq> None then [KVCancel, LiveClear (id_e e4)]
                  else if \<not> trw then [KVCancel, LiveClear (id_e e4)]
                  else [KVCommit, if kv_err env \<noteq> None then LiveClear (id_e e4)
                                  else LiveFlush (id_e e4)]),
            Some (if err \<noteq> None then (res, err)
                  else timer_check env stm res (kv_err env)))
         \<and> (kv_err env \<noteq> None \<longrightarrow> timer_check env stm res (kv_err env) = (res, kv_err env))"
proof -
  have fin: "finalize env True trw e4 l4 res err =
      (if err \<noteq> None
       then (e4\<lparr>dbo := fst (Cancel (dbo e4) l4)\<rparr>, l4 @ [KVCancel, LiveClear (id_e e4)],
             res, err, True)
       else if \<not> trw
       then (e4\<lparr>dbo := fst (Cancel (dbo e4) l4)\<rparr>, l4 @ [KVCancel, LiveClear (id_e e4)],
             res, kv_err env, True)
       else (e4\<lparr>dbo := fst (Commit (dbo e4) l4)\<rparr>,
             l4 @ [KVCommit, if kv_err env \<noteq> None then LiveClear (id_e e4)
                             else LiveFlush (id_e e4)],
             res, kv_err env, True))"
    using still_open not_cancelled
    by (simp add: finalize_def split_beta Cancel_open Commit_open)
  have "operate env e log stm =
           (e4\<lparr>dbo := Reset (dbo e4)\<rparr>,
            l4 @ (if err \<noteq> None then [KVCancel, LiveClear (id_e e4)]
                  else if \<not> trw then [KVCancel, LiveClear (id_e e4)]
                  else [KVCommit, if kv_err env \<noteq> None then LiveClear (id_e e4)
                                  else LiveFlush (id_e e4)]),
            Some (if err \<noteq> None then (res, err)
                  else timer_check env stm res (kv_err env)))"
    using implicit opened [unfolded trw] evaluated
    by (simp add: operate_def fin trw [symmetric] Reset_Cancel Reset_Commit Cancel_Reset
        timer_check_error)
  moreover have "kv_err env \<noteq> None \<longrightarrow> timer_check env stm res (kv_err env) = (res, kv_err env)"
    by (simp add: timer_check_error)
  ultimately show ?thesis by simp
qed

text \<open>
  An instance: \<open>CREATE x\<close> outside a transaction, with a \<open>Commit\<close> that fails.
\<close>

theorem operate_implicit_witness:
  "TX (dbo fresh) = None
   \<and> begin_tx (calm\<lparr>kv_err := Some (KVError ''conflict'')\<rparr>) True fresh [] =
       (in_tx\<lparr>lock := None\<rparr>, [KVBegin True], None)
   \<and> Closed (dbo in_tx) = False
   \<and> operate (calm\<lparr>kv_err := Some (KVError ''conflict'')\<rparr>) fresh [] create_stm =
       (fresh\<lparr>time := 1001, lock := Some new_mutex\<rparr>,
        [KVBegin True, Eval ''executeCreate'' create_stm, KVCommit, LiveClear ''q1''],
        Some (Some [Number 1], Some (KVError ''conflict'')))"
  using operate_implicit_finalization [of fresh True create_stm
      "calm\<lparr>kv_err := Some (KVError ''conflict'')\<rparr>" "[]"
      "in_tx\<lparr>lock := None\<rparr>" "[KVBegin True]" "in_tx\<lparr>time := 1001\<rparr>"
      "[KVBegin True, Eval ''executeCreate'' create_stm]" "Some [Number 1]" None]
  by (simp add: sample_defs run_defs)

subsection \<open>Deadlines and cancellation\<close>

text \<open>
  C6. A statement declares a positive duration \<open>d\<close>; \<open>operate\<close> reaches the evaluator
  (a transaction is present, or \<open>begin\<close> does not fail), the evaluator returns without
  error, and the deadline-bounded context is done when it returns. Then \<open>operate\<close>
  returns nil rows and \<open>TimerError d\<close>, with the handle reset; \<open>status\<close> maps that error
  to \<open>ERR_TO\<close>; and \<open>conduct\<close> sends, as its one response, a response of status \<open>ERR_TO\<close>
  without rows.
\<close>

theorem expired_deadline_gives_ERR_TO:
  assumes dur: "Duration stm = Some d" and pos: "0 < d"
    and begun: "TX (dbo e) \<noteq> None \<or> begin_err env = None"
    and returns: "ev_panics env = False" and no_error: "ev_err env = None"
    and expired: "ctx_done env"
  shows "(\<exists>e' l'. operate env e log stm = (e', l', Some (None, Some (TimerError d)))
                  \<and> TX (dbo e') = None \<and> send e' = send e)
       \<and> status (Some (TimerError d)) = ''ERR_TO''
       \<and> (kind stm \<noteq> BeginStatement \<and> kind stm \<noteq> CancelStatement
            \<and> kind stm \<noteq> CommitStatement \<longrightarrow>
            (\<exists>e' l'. conduct errtext env e log stm = (e', l', [], False)
               \<and> delivered (send e') = delivered (send e) @
                    [\<lparr>Time = Since (if TX (dbo e) = None then t_now env else 0) (t_end env),
                      Status = ''ERR_TO'', Detail = errtext (TimerError d), Result = []\<rparr>]))"
proof -
  have ee: "(if evaluator (kind stm) = None then None else ev_err env) = None"
    using no_error by simp
  note operate_returns [OF begun returns, of stm log, unfolded ee]
  then obtain e1 l1 e4 l4 res where
    b: "(if TX (dbo e) = None
         then begin_tx env
                (TX (dbo e) = None \<and> (case Writeable stm of Some w \<Rightarrow> w | None \<Rightarrow> False))
                e log
         else (e, log, None)) = (e1, l1, None)"
    and ev: "dispatch env (before_eval env (TX (dbo e) = None) e1) l1 stm
               = (e4, l4, Some (res, None))"
    by blast
  have tc: "timer_check env stm res None = (None, Some (TimerError d))"
    using dur pos expired by (simp add: timer_check_def)
  have op: "operate env e log stm =
           (e4\<lparr>dbo := Reset (dbo e4)\<rparr>, snd (Cancel (dbo e4) l4) @ [LiveClear (id_e e4)],
            Some (None, Some (TimerError d)))"
    using operate_when_done [OF refl b ev expired] tc by simp
  have "send e1 = send e"
    using b begin_tx_frame by (auto split: if_splits)
  with dispatch_frame [OF ev] have snd: "send e4 = send e"
    by (simp add: before_eval_frame)
  from op snd have first:
    "\<exists>e' l'. operate env e log stm = (e', l', Some (None, Some (TimerError d)))
                  \<and> TX (dbo e') = None \<and> send e' = send e"
    by (simp add: TX_Reset)
  have third: "kind stm \<noteq> BeginStatement \<and> kind stm \<noteq> CancelStatement
            \<and> kind stm \<noteq> CommitStatement \<longrightarrow>
            (\<exists>e' l'. conduct errtext env e log stm = (e', l', [], False)
               \<and> delivered (send e') = delivered (send e) @
                    [\<lparr>Time = Since (if TX (dbo e) = None then t_now env else 0) (t_end env),
                      Status = ''ERR_TO'', Detail = errtext (TimerError d), Result = []\<rparr>])"
    using op snd
    by (simp add: conduct_def TX_Reset buffer_rsp_def chan_send_def detail_def append_rows_def)
  from first third show ?thesis by simp
qed

text \<open>
  An instance: a \<open>SELECT\<close> with a duration of 10ns whose deadline has passed when the
  evaluator returns one row.
\<close>

theorem expired_deadline_witness:
  "Duration slow_stm = Some 10 \<and> (0::int) < 10 \<and> begin_err (calm\<lparr>ctx_done := True\<rparr>) = None
   \<and> ev_panics (calm\<lparr>ctx_done := True\<rparr>) = False \<and> ev_err (calm\<lparr>ctx_done := True\<rparr>) = None
   \<and> ctx_done (calm\<lparr>ctx_done := True\<rparr>)
   \<and> operate (calm\<lparr>ctx_done := True\<rparr>) fresh [] slow_stm =
       (fresh\<lparr>time := 1001, lock := Some new_mutex\<rparr>,
        [KVBegin False, Eval ''executeSelect'' slow_stm, KVCancel, LiveClear ''q1''],
        Some (None, Some (TimerError 10)))
   \<and> conduct plain_text (calm\<lparr>ctx_done := True\<rparr>) fresh [] slow_stm =
       (fresh\<lparr>time := 1001, lock := Some new_mutex,
              send := \<lparr>delivered = [\<lparr>Time = 5, Status = ''ERR_TO'', Detail = ''Query timeout'',
                                      Result = []\<rparr>], shut = False\<rparr>\<rparr>,
        [KVBegin False, Eval ''executeSelect'' slow_stm, KVCancel, LiveClear ''q1''],
        [], False)"
  using expired_deadline_gives_ERR_TO [of slow_stm 10 fresh "calm\<lparr>ctx_done := True\<rparr>" "[]"
      plain_text]
  by (simp add: sample_defs run_defs)

text \<open>
  When the deadline passes only after the \<open>select\<close>, while the local transaction is
  being committed, the timer closure still looks at the error about to be returned: a
  \<open>Commit\<close> that succeeded is reported as a \<open>TimerError\<close>, a \<open>Commit\<close> that failed is
  reported with its own error.
\<close>

lemma late_expiry_after_commit:
  "operate (calm\<lparr>ctx_late := True\<rparr>) fresh [] (create_stm\<lparr>Duration := Some 10\<rparr>)
   = (fresh\<lparr>time := 1001, lock := Some new_mutex\<rparr>,
      [KVBegin True, Eval ''executeCreate'' (create_stm\<lparr>Duration := Some 10\<rparr>), KVCommit,
       LiveFlush ''q1''],
      Some (None, Some (TimerError 10)))"
  by (simp add: sample_defs run_defs)

lemma late_expiry_after_failed_commit:
  "operate (calm\<lparr>ctx_late := True, kv_err := Some (KVError ''conflict'')\<rparr>) fresh []
     (create_stm\<lparr>Duration := Some 10\<rparr>)
   = (fresh\<lparr>time := 1001, lock := Some new_mutex\<rparr>,
      [KVBegin True, Eval ''executeCreate'' (create_stm\<lparr>Duration := Some 10\<rparr>), KVCommit,
       LiveClear ''q1''],
      Some (Some [Number 1], Some (KVError ''conflict'')))"
  by (simp add: sample_defs run_defs)

text \<open>
  C7. First: when the context is done at the head of the loop for a statement, neither
  that statement nor any later one is conducted; \<open>execute\<close> ends as it does for the
  statements before it. Second: when the context is done right after the evaluator
  returned \<open>(res, err)\<close> and left the executor \<open>e4\<close>, \<open>operate\<close> cancels the transaction
  (the store sees \<open>Cancel\<close> unless the transaction was closed already), resets the handle
  and calls \<open>clear(id)\<close>.
\<close>

theorem cancelled_context_stops:
  "(ctx_cancelled env \<longrightarrow>
      run_statements errtext e log (pre @ (stm, env) # rest) = run_statements errtext e log pre
      \<and> execute errtext e log (pre @ (stm, env) # rest) = execute errtext e log pre)
   \<and> (ctx_done env
       \<and> (if TX (dbo e) = None
           then begin_tx env (case Writeable stm of Some w \<Rightarrow> w | None \<Rightarrow> False) e log
           else (e, log, None)) = (e1, l1, None)
       \<and> dispatch env (before_eval env (TX (dbo e) = None) e1) l1 stm = (e4, l4, Some (res, err))
      \<longrightarrow>
        operate env e log stm =
          (e4\<lparr>dbo := Reset (dbo e4)\<rparr>,
           (if Closed (dbo e4) then l4 else l4 @ [KVCancel]) @ [LiveClear (id_e e4)],
           Some (timer_check env stm res err))
        \<and> TX (Reset (dbo e4)) = None)"
proof -
  have a: "ctx_cancelled env \<longrightarrow>
      run_statements errtext e log (pre @ (stm, env) # rest) = run_statements errtext e log pre
      \<and> execute errtext e log (pre @ (stm, env) # rest) = execute errtext e log pre"
    by (simp add: execute_def run_statements_cancelled)
  have b: "ctx_done env
       \<and> (if TX (dbo e) = None
           then begin_tx env (case Writeable stm of Some w \<Rightarrow> w | None \<Rightarrow> False) e log
           else (e, log, None)) = (e1, l1, None)
       \<and> dispatch env (before_eval env (TX (dbo e) = None) e1) l1 stm = (e4, l4, Some (res, err))
      \<longrightarrow>
        operate env e log stm =
          (e4\<lparr>dbo := Reset (dbo e4)\<rparr>,
           (if Closed (dbo e4) then l4 else l4 @ [KVCancel]) @ [LiveClear (id_e e4)],
           Some (timer_check env stm res err))
        \<and> TX (Reset (dbo e4)) = None"
  proof (intro impI, elim conjE)
    assume d: "ctx_done env"
      and bg: "(if TX (dbo e) = None
           then begin_tx env (case Writeable stm of Some w \<Rightarrow> w | None \<Rightarrow> False) e log
           else (e, log, None)) = (e1, l1, None)"
      and ev: "dispatch env (before_eval env (TX (dbo e) = None) e1) l1 stm
                 = (e4, l4, Some (res, err))"
    have bg': "(if TX (dbo e) = None
           then begin_tx env
                  (TX (dbo e) = None \<and> (case Writeable stm of Some w \<Rightarrow> w | None \<Rightarrow> False))
                  e log
           else (e, log, None)) = (e1, l1, None)"
      using bg by (auto split: if_splits)
    from operate_when_done [OF refl bg' ev d]
    show "operate env e log stm =
          (e4\<lparr>dbo := Reset (dbo e4)\<rparr>,
           (if Closed (dbo e4) then l4 else l4 @ [KVCancel]) @ [LiveClear (id_e e4)],
           Some (timer_check env stm res err))
        \<and> TX (Reset (dbo e4)) = None"
      by (simp add: Cancel_log TX_Reset)
  qed
  from a b show ?thesis by blast
qed

text \<open>
  An instance: three statements with the context done before the second, and a \<open>CREATE\<close>
  inside a transaction with the context done after its evaluator.
\<close>

theorem cancelled_context_witness:
  "ctx_cancelled (calm\<lparr>ctx_cancelled := True\<rparr>)
   \<and> execute plain_text fresh []
        ([(select_stm, calm)] @ (select_stm, calm\<lparr>ctx_cancelled := True\<rparr>) # [(create_stm, calm)])
       = execute plain_text fresh [] [(select_stm, calm)]
   \<and> delivered (send (fst (execute plain_text fresh []
        ([(select_stm, calm)] @ (select_stm, calm\<lparr>ctx_cancelled := True\<rparr>) # [(create_stm, calm)]))))
       = [\<lparr>Time = 5, Status = ''OK'', Detail = [], Result = [Number 1]\<rparr>]
   \<and> ctx_done (calm\<lparr>ctx_done := True\<rparr>)
   \<and> dispatch (calm\<lparr>ctx_done := True\<rparr>)
        (before_eval (calm\<lparr>ctx_done := True\<rparr>) (TX (dbo in_tx) = None) in_tx) [] create_stm
       = (in_tx\<lparr>time := 1001\<rparr>, [Eval ''executeCreate'' create_stm],
          Some (Some [Number 1], None))
   \<and> operate (calm\<lparr>ctx_done := True\<rparr>) in_tx [] create_stm
       = (in_tx\<lparr>time := 1001, dbo := \<lparr>TX = None\<rparr>\<rparr>,
          [Eval ''executeCreate'' create_stm, KVCancel, LiveClear ''q1''],
          Some (Some [Number 1], None))"
  using cancelled_context_stops [of "calm\<lparr>ctx_cancelled := True\<rparr>" plain_text fresh "[]"
      "[(select_stm, calm)]" select_stm "[(create_stm, calm)]"]
    cancelled_context_stops [of "calm\<lparr>ctx_done := True\<rparr>" plain_text in_tx "[]" "[]"
      create_stm "[]" in_tx "[]" "in_tx\<lparr>time := 1001\<rparr>" "[Eval ''executeCreate'' create_stm]"
      "Some [Number 1]" None]
  by (simp add: sample_defs run_defs)

subsection \<open>Reuse of a pooled executor\<close>

text \<open>
  C8, as the code has it: \<open>newExecutor\<close> sets \<open>id\<close>, \<open>ns\<close>, \<open>db\<close>, \<open>dbo\<close>, \<open>opts\<close>, \<open>send\<close>
  and \<open>cache\<close>; \<open>time\<close> and \<open>lock\<close> keep the values the pooled executor holds.
\<close>

theorem newExecutor_fields:
  "newExecutor newOptions pooled i n d =
     \<lparr>id_e = i, ns = n, db = d, dbo = mem_New, time = time pooled, lock = lock pooled,
      opts = newOptions, send = make_chan, cache = []\<rparr>"
  by (cases pooled) (simp add: newExecutor_def)

text \<open>
  C8 as claimed (every field, \<open>time\<close> and \<open>lock\<close> included, is reset on reuse) fails: an
  executor that has run the query \<open>CREATE x\<close> goes back to the pool with the time and the
  mutex of that statement, and \<open>newExecutor\<close> hands them on to the next query, where an
  executor that has run nothing has time 0 and no mutex.
\<close>

theorem newExecutor_keeps_time_and_lock:
  "fst (execute plain_text fresh [] [(create_stm, calm)])
     = fresh\<lparr>time := 1001, lock := Some new_mutex,
             send := \<lparr>delivered = [\<lparr>Time = 5, Status = ''OK'', Detail = [],
                                     Result = [Number 1]\<rparr>],
                      shut = True\<rparr>\<rparr>
   \<and> time (newExecutor no_options (fst (execute plain_text fresh [] [(create_stm, calm)]))
        ''q2'' ''test'' ''test'') = 1001
   \<and> lock (newExecutor no_options (fst (execute plain_text fresh [] [(create_stm, calm)]))
        ''q2'' ''test'' ''test'') = Some (Mutex 0)
   \<and> time (newExecutor no_options fresh ''q2'' ''test'' ''test'') = 0
   \<and> lock (newExecutor no_options fresh ''q2'' ''test'' ''test'') = None"
  by (simp add: sample_defs run_defs newExecutor_def)

text \<open>
  The evaluator of a statement is handed the time \<open>operate\<close> has just taken, and, for a
  local transaction, a new mutex.
\<close>

lemma evaluator_sees_new_time:
  "time (before_eval env loc e) = t_stamp env
   \<and> lock (before_eval env True e) = Some new_mutex"
  by (simp add: before_eval_def)

subsection \<open>Transaction statements out of place\<close>

text \<open>
  C9. With no transaction present, \<open>cancel\<close> and \<open>commit\<close> send nothing, return the buffer
  they were given and a nil error, and leave the executor and the store as they were.
\<close>

theorem no_transaction_noop:
  assumes "TX (dbo e) = None"
  shows "cancel env e log buf err chn = (e, log, None, buf, chn)
       \<and> commit errtext env e log buf err chn = (e, log, None, buf, chn)"
  using assms by (simp add: cancel_def commit_def Reset_def)

text \<open>An instance: a buffer of one response and a pending error, on a new executor.\<close>

theorem no_transaction_noop_witness:
  "TX (dbo fresh) = None
   \<and> cancel calm fresh [] [\<lparr>Time = 5, Status = ''OK'', Detail = [], Result = [Number 1]\<rparr>]
        (Some (FieldError ''bad field'')) make_chan
      = (fresh, [], None, [\<lparr>Time = 5, Status = ''OK'', Detail = [], Result = [Number 1]\<rparr>],
         make_chan)
   \<and> commit plain_text calm fresh []
        [\<lparr>Time = 5, Status = ''OK'', Detail = [], Result = [Number 1]\<rparr>]
        (Some (FieldError ''bad field'')) make_chan
      = (fresh, [], None, [\<lparr>Time = 5, Status = ''OK'', Detail = [], Result = [Number 1]\<rparr>],
         make_chan)"
  using no_transaction_noop [of fresh calm "[]"
      "[\<lparr>Time = 5, Status = ''OK'', Detail = [], Result = [Number 1]\<rparr>]"
      "Some (FieldError ''bad field'')" make_chan plain_text]
  by (simp add: fresh_def mem_New_def)

text \<open>
  C10. With a transaction present, \<open>begin\<close> changes nothing and returns a nil error; and
  \<open>conduct\<close> of a \<open>BEGIN\<close> then only replaces the mutex: the handle, the channel and the
  store are as before.
\<close>

theorem begin_in_open_transaction:
  assumes "TX (dbo e) \<noteq> None"
  shows "begin_tx env w e log = (e, log, None)
       \<and> (kind stm = BeginStatement \<longrightarrow>
            conduct errtext env e log stm = (e\<lparr>lock := Some new_mutex\<rparr>, log, [], False))"
  using assms by (auto simp add: begin_tx_def conduct_def)

text \<open>An instance: \<open>BEGIN\<close> inside the transaction of \<open>in_tx\<close>.\<close>

theorem begin_in_open_transaction_witness:
  "TX (dbo in_tx) \<noteq> None
   \<and> begin_tx calm True in_tx [] = (in_tx, [], None)
   \<and> conduct plain_text calm in_tx [] (stm_of BeginStatement) = (in_tx, [], [], False)"
  using begin_in_open_transaction [of in_tx calm True "[]" "stm_of BeginStatement" plain_text]
  by (simp add: sample_defs)

end
